theory Spec2Isabelle
  imports Complex_Main "HOL-Library.Word"
begin

section \<open>JavaScript strings\<close>

text \<open>
  A JavaScript string is a sequence of UTF-16 code units; \<open>length\<close>, \<open>substring\<close>,
  \<open>lastIndexOf\<close> and \<open>trim\<close> all count code units. ASCII literals of the source are
  written with \<open>ascii\<close>; characters outside ASCII are given by their code units.
\<close>

type_synonym jsstring = "16 word list"

definition ascii :: "string \<Rightarrow> jsstring" where
  "ascii s = map (\<lambda>c. of_nat (of_char c)) s"

text \<open>
  The code units \<open>String.prototype.trim\<close> removes: the WhiteSpace and LineTerminator
  productions of ECMAScript (TAB, LF, VT, FF, CR, SP, NBSP, the Unicode space separators,
  LS, PS and the byte order mark).
\<close>

definition is_ws :: "16 word \<Rightarrow> bool" where
  "is_ws c \<longleftrightarrow> c \<in> set [0x09, 0x0A, 0x0B, 0x0C, 0x0D, 0x20, 0xA0, 0x1680,
      0x2000, 0x2001, 0x2002, 0x2003, 0x2004, 0x2005, 0x2006, 0x2007, 0x2008, 0x2009, 0x200A,
      0x2028, 0x2029, 0x202F, 0x205F, 0x3000, 0xFEFF]"

definition trim :: "jsstring \<Rightarrow> jsstring" where
  "trim s = rev (dropWhile is_ws (rev (dropWhile is_ws s)))"

text \<open>
  \<open>s.lastIndexOf(c, fromIndex)\<close> for a one-character search string: the largest index
  \<open>k \<le> fromIndex\<close> with \<open>s[k] = c\<close>, or \<open>-1\<close>. Indices beyond the end of \<open>s\<close> are skipped,
  which is the clamping of \<open>fromIndex\<close> to the last index.
\<close>

fun lastIndexOf :: "jsstring \<Rightarrow> 16 word \<Rightarrow> nat \<Rightarrow> int" where
  "lastIndexOf s c 0 = (if s \<noteq> [] \<and> s ! 0 = c then 0 else - 1)"
| "lastIndexOf s c (Suc k) =
     (if Suc k < length s \<and> s ! Suc k = c then int (Suc k) else lastIndexOf s c k)"

text \<open>\<open>s.substring(a, b)\<close>: the arguments are swapped when \<open>a > b\<close> and clamped to the length.\<close>

definition substring :: "jsstring \<Rightarrow> nat \<Rightarrow> nat \<Rightarrow> jsstring" where
  "substring s a b = take (max a b - min a b) (drop (min a b) s)"

text \<open>\<open>s.substring(a)\<close>.\<close>

definition substring_from :: "jsstring \<Rightarrow> nat \<Rightarrow> jsstring" where
  "substring_from s a = drop a s"

section \<open>Message chunking (services/whatsapp.js, splitMessage)\<close>

text \<open>
  Lines 186--192: the break point of one iteration. \<open>breakPoint < maxLength / 2\<close> is a
  comparison of JavaScript numbers, so for the integer \<open>maxLength\<close> it is
  \<open>2 * breakPoint < maxLength\<close>.
\<close>

definition findBreakPoint :: "jsstring \<Rightarrow> nat \<Rightarrow> int" where
  "findBreakPoint remaining maxLength =
     (let breakPoint = lastIndexOf remaining 0x0A maxLength;
          breakPoint = (if breakPoint = - 1 \<or> 2 * breakPoint < int maxLength
                        then lastIndexOf remaining 0x20 maxLength else breakPoint);
          breakPoint = (if breakPoint = - 1 then int maxLength else breakPoint)
      in breakPoint)"

text \<open>
  The \<open>while\<close> loop of lines 179--196, with \<open>chunks\<close> as the accumulator. The loop need not
  end (with \<open>maxLength = 0\<close> it pushes empty chunks forever), so the result is an option
  and \<open>None\<close> stands for a call that never returns.
\<close>

partial_function (option) splitLoop :: "nat \<Rightarrow> jsstring list \<Rightarrow> jsstring \<Rightarrow> jsstring list option" where
  "splitLoop maxLength chunks remaining =
     (if length remaining > 0 then
        (if length remaining \<le> maxLength then Some (chunks @ [remaining])
         else (let breakPoint = nat (findBreakPoint remaining maxLength)
               in splitLoop maxLength (chunks @ [substring remaining 0 breakPoint])
                    (trim (substring_from remaining breakPoint))))
      else Some chunks)"

definition splitMessage :: "jsstring \<Rightarrow> nat \<Rightarrow> jsstring list option" where
  "splitMessage message maxLength =
     (if length message \<le> maxLength then Some [message] else splitLoop maxLength [] message)"

section \<open>Dates and numbers\<close>

text \<open>
  A \<open>Date\<close> object holds a time value: an integral number of milliseconds since the epoch,
  or \<open>NaN\<close> (an Invalid Date), which is \<open>None\<close> here. A JavaScript number that the code
  computes with (an offset of the tool, a sum of a time value and an offset) is a \<open>rat\<close>:
  fractions are there, the rounding of the binary representation is not. Every
  construction of a \<open>Date\<close> from a number passes through \<open>TimeClip\<close>, which turns a
  value beyond 8.64e15 ms into \<open>NaN\<close> and drops the fraction of any other.
\<close>

type_synonym date = "int option"

definition maxTime :: int where
  "maxTime = 8640000000000000"

definition msPerDay :: int where
  "msPerDay = 86400000"

definition ToIntegerOrInfinity :: "rat \<Rightarrow> int" where
  "ToIntegerOrInfinity v = (if v < 0 then \<lceil>v\<rceil> else \<lfloor>v\<rfloor>)"

definition TimeClip :: "rat \<Rightarrow> date" where
  "TimeClip v = (if \<bar>v\<bar> > of_int maxTime then None else Some (ToIntegerOrInfinity v))"

text \<open>
  \<open>DateFromTime\<close>: the day of the month (1 to 31) of a time value, in the proleptic
  Gregorian calendar, computed from the day number by the era and day-of-era arithmetic.
\<close>

definition DateFromTime :: "int \<Rightarrow> int" where
  "DateFromTime t =
     (let z = t div msPerDay + 719468;
          doe = z mod 146097;
          yoe = (doe - doe div 1460 + doe div 36524 - doe div 146096) div 365;
          doy = doe - (365 * yoe + yoe div 4 - yoe div 100);
          mp = (5 * doy + 2) div 153
      in doy - (153 * mp + 2) div 5 + 1)"

text \<open>
  What the runtime and the libraries decide and the repository does not: how
  \<open>new Date(string)\<close> parses a string (to a time value or to \<open>NaN\<close>), the text that
  date-fns \<open>format\<close> produces for a valid date with the pattern of reminder.js, and the
  time zone of the host: \<open>LocalTZA t True\<close> is the offset of local time from UTC at the
  UTC time value \<open>t\<close>, \<open>LocalTZA t False\<close> the offset at the local time value \<open>t\<close>.
\<close>

record runtime =
  Date_parse :: "jsstring \<Rightarrow> date"
  format_pattern :: "int \<Rightarrow> jsstring"
  LocalTZA :: "int \<Rightarrow> bool \<Rightarrow> int"

definition LocalTime :: "runtime \<Rightarrow> int \<Rightarrow> int" where
  "LocalTime R t = t + LocalTZA R t True"

definition UTC :: "runtime \<Rightarrow> int \<Rightarrow> int" where
  "UTC R t = t - LocalTZA R t False"

text \<open>\<open>d.getDate()\<close> and \<open>d.setDate(dt)\<close> on a valid \<open>Date\<close> with the time value \<open>t\<close>: the day of
  the month in local time, and the time value after the day of the month is set to the
  integral part of \<open>dt\<close>, the month, the year and the local time of day staying.\<close>

definition getDate :: "runtime \<Rightarrow> int \<Rightarrow> int" where
  "getDate R t = DateFromTime (LocalTime R t)"

definition setDate :: "runtime \<Rightarrow> int \<Rightarrow> rat \<Rightarrow> date" where
  "setDate R t dt =
     (let local = LocalTime R t;
          day = local div msPerDay + (ToIntegerOrInfinity dt - DateFromTime local);
          newDate = day * msPerDay + local mod msPerDay
      in TimeClip (of_int (UTC R newDate)))"

text \<open>
  The functions of the date-fns library that reminder.js imports. \<open>addMinutes\<close> and
  \<open>addHours\<close> build a new \<open>Date\<close> from the old time value plus the amount in milliseconds,
  the amount taken as it is, whole or not.
  \<open>addDays\<close> returns the date as it is for the amount 0 and otherwise calls
  \<open>setDate(getDate() + amount)\<close>: it moves the local calendar day by the integral part of
  the sum and keeps the local time of day. An Invalid Date stays invalid.
\<close>

definition addMilliseconds :: "date \<Rightarrow> rat \<Rightarrow> date" where
  "addMilliseconds d amount = (case d of None \<Rightarrow> None | Some t \<Rightarrow> TimeClip (of_int t + amount))"

definition addMinutes :: "date \<Rightarrow> rat \<Rightarrow> date" where
  "addMinutes d amount = addMilliseconds d (amount * 60000)"

definition addHours :: "date \<Rightarrow> rat \<Rightarrow> date" where
  "addHours d amount = addMilliseconds d (amount * 3600000)"

definition addDays :: "runtime \<Rightarrow> date \<Rightarrow> rat \<Rightarrow> date" where
  "addDays R d amount =
     (case d of
        None \<Rightarrow> None
      | Some t \<Rightarrow> if amount = 0 then Some t else setDate R t (of_int (getDate R t) + amount))"

text \<open>
  \<open>a <= b\<close> on two \<open>Date\<close> objects compares their time values as numbers; a comparison
  with \<open>NaN\<close> is false.
\<close>

definition date_le :: "date \<Rightarrow> date \<Rightarrow> bool" where
  "date_le a b = (case a of None \<Rightarrow> False | Some x \<Rightarrow> (case b of None \<Rightarrow> False | Some y \<Rightarrow> x \<le> y))"

text \<open>
  The text of an integral number in a template literal: its decimal digits, with a
  minus sign when negative (a clock reading is far below 1e21, where the exponent
  notation would start).
\<close>

fun digits :: "nat \<Rightarrow> jsstring" where
  "digits n = (if n < 10 then [0x30 + of_nat n]
               else digits (n div 10) @ [0x30 + of_nat (n mod 10)])"

declare digits.simps [simp del]

definition number_to_string :: "int \<Rightarrow> jsstring" where
  "number_to_string i = (if i < 0 then 0x2D # digits (nat (- i)) else digits (nat i))"

definition new_Date :: "runtime \<Rightarrow> jsstring \<Rightarrow> date" where
  "new_Date R s = (case Date_parse R s of None \<Rightarrow> None | Some t \<Rightarrow> TimeClip (of_int t))"

datatype error = RangeError jsstring | Rejected jsstring

fun error_message :: "error \<Rightarrow> jsstring" where
  "error_message (RangeError m) = m"
| "error_message (Rejected m) = m"

text \<open>date-fns \<open>format\<close> throws \<open>RangeError: Invalid time value\<close> for an Invalid Date.\<close>

definition format :: "runtime \<Rightarrow> date \<Rightarrow> error + jsstring" where
  "format R d = (case d of None \<Rightarrow> Inl (RangeError (ascii ''Invalid time value''))
                 | Some t \<Rightarrow> Inr (format_pattern R t))"

section \<open>The reminder store (agent/tools/reminder.js)\<close>

text \<open>
  A JavaScript \<open>Map\<close> keeps its entries in insertion order; \<open>set\<close> on a key already present
  replaces the value in place.
\<close>

fun Map_set :: "'k \<Rightarrow> 'v \<Rightarrow> ('k \<times> 'v) list \<Rightarrow> ('k \<times> 'v) list" where
  "Map_set k v [] = [(k, v)]"
| "Map_set k v ((k', v') # m) = (if k' = k then (k, v) # m else (k', v') # Map_set k v m)"

definition Map_get :: "('k \<times> 'v) list \<Rightarrow> 'k \<Rightarrow> 'v option" where
  "Map_get m k = map_of m k"

record reminder =
  r_id :: jsstring
  r_message :: jsstring
  triggerAt :: date
  createdAt :: date
  sent :: bool

type_synonym reminder_store = "(jsstring \<times> reminder) list"

text \<open>
  The arguments of the tool, after the schema: every field but \<open>message\<close> is optional, and
  an offset is any number, whole or not.
\<close>

record reminder_args =
  message :: jsstring
  delayMinutes :: "rat option"
  delayHours :: "rat option"
  delayDays :: "rat option"
  specificTime :: "jsstring option"

text \<open>
  The three readings of the clock in one call: \<open>new Date()\<close> of line 29, \<open>Date.now()\<close> of
  line 35 and \<open>new Date()\<close> of line 41, each a valid time value.
\<close>

record clock =
  now_trigger :: int
  now_id :: int
  now_created :: int

text \<open>
  The payload that the tool serialises: \<open>{success: true, reminderId, message, scheduledFor}\<close>
  or \<open>{success: false, error}\<close>.
\<close>

datatype payload =
  Success jsstring jsstring jsstring
| Failure jsstring

text \<open>\<open>if (v)\<close> on an optional string and on an optional number.\<close>

definition truthy_string :: "jsstring option \<Rightarrow> bool" where
  "truthy_string v = (case v of None \<Rightarrow> False | Some s \<Rightarrow> s \<noteq> [])"

definition truthy_number :: "rat option \<Rightarrow> bool" where
  "truthy_number v = (case v of None \<Rightarrow> False | Some n \<Rightarrow> n \<noteq> 0)"

text \<open>Lines 26--33.\<close>

definition computeTriggerAt :: "runtime \<Rightarrow> int \<Rightarrow> reminder_args \<Rightarrow> date" where
  "computeTriggerAt R now a =
     (if truthy_string (specificTime a) then new_Date R (the (specificTime a))
      else
        (let triggerAt = Some now;
             triggerAt = (if truthy_number (delayMinutes a)
                          then addMinutes triggerAt (the (delayMinutes a)) else triggerAt);
             triggerAt = (if truthy_number (delayHours a)
                          then addHours triggerAt (the (delayHours a)) else triggerAt);
             triggerAt = (if truthy_number (delayDays a)
                          then addDays R triggerAt (the (delayDays a)) else triggerAt)
         in triggerAt))"

text \<open>
  \<open>reminderTool.func\<close>. The only statement of the \<open>try\<close> block that can throw is \<open>format\<close>,
  and it runs after \<open>reminders.set\<close>: the \<open>catch\<close> returns the failure payload with the
  store as \<open>set\<close> left it.
\<close>

definition reminder_func :: "runtime \<Rightarrow> clock \<Rightarrow> reminder_args \<Rightarrow> reminder_store
    \<Rightarrow> payload \<times> reminder_store" where
  "reminder_func R clk a reminders =
     (let triggerAt = computeTriggerAt R (now_trigger clk) a;
          reminderId = ascii ''rem_'' @ number_to_string (now_id clk);
          reminders = Map_set reminderId
            \<lparr>r_id = reminderId, r_message = message a, triggerAt = triggerAt,
             createdAt = Some (now_created clk), sent = False\<rparr> reminders
      in case format R triggerAt of
           Inr scheduled \<Rightarrow> (Success reminderId (message a) scheduled, reminders)
         | Inl e \<Rightarrow> (Failure (error_message e), reminders))"

text \<open>\<open>getPendingReminders\<close>: the \<open>for\<close> loop over the entries, \<open>pending\<close> as the accumulator.\<close>

fun pendingLoop :: "int \<Rightarrow> reminder_store \<Rightarrow> reminder list \<Rightarrow> reminder list" where
  "pendingLoop now [] pending = pending"
| "pendingLoop now ((k, reminder) # rest) pending =
     pendingLoop now rest
       (if \<not> sent reminder \<and> date_le (triggerAt reminder) (Some now)
        then pending @ [reminder] else pending)"

definition getPendingReminders :: "int \<Rightarrow> reminder_store \<Rightarrow> reminder list" where
  "getPendingReminders now reminders = pendingLoop now reminders []"

text \<open>\<open>markReminderSent\<close>: the object stored under the key is updated in place.\<close>

fun markReminderSent :: "jsstring \<Rightarrow> reminder_store \<Rightarrow> reminder_store" where
  "markReminderSent reminderId [] = []"
| "markReminderSent reminderId ((k, r) # m) =
     (if k = reminderId then (k, r\<lparr>sent := True\<rparr>) # m else (k, r) # markReminderSent reminderId m)"

text \<open>
  A runtime for the worked examples: one string parses, the formatter prints the time
  value, and the host is on UTC.
\<close>

definition example_runtime :: runtime where
  "example_runtime =
     \<lparr>Date_parse = (\<lambda>s. if s = ascii ''2030-01-01T00:00:00Z'' then Some 1893456000000 else None),
      format_pattern = number_to_string,
      LocalTZA = (\<lambda>t isUTC. 0)\<rparr>"


definition example_clock :: clock where
  "example_clock = \<lparr>now_trigger = 1700000000000, now_id = 1700000000000, now_created = 1700000000000\<rparr>"

definition example_args :: reminder_args where
  "example_args = \<lparr>message = ascii ''call mom'', delayMinutes = None, delayHours = None,
                    delayDays = None, specificTime = None\<rparr>"

definition example_id :: jsstring where
  "example_id = ascii ''rem_1700000000000''"

text \<open>The sum of the offsets a call supplies, in milliseconds (an absent offset counts 0).\<close>

definition offset_ms :: "rat option \<Rightarrow> rat \<Rightarrow> rat" where
  "offset_ms d unit = (case d of None \<Rightarrow> 0 | Some n \<Rightarrow> n * unit)"

definition offsets_sum :: "reminder_args \<Rightarrow> rat" where
  "offsets_sum a = offset_ms (delayMinutes a) 60000 + offset_ms (delayHours a) 3600000
                   + offset_ms (delayDays a) 86400000"

section \<open>The delivery gateway and the dispatcher (services/whatsapp.js)\<close>

datatype role = User | Assistant

record entry =
  role :: role
  content :: jsstring

text \<open>
  The body of the webhook request: the text and the descriptors of the first media item.
  An absent field is \<open>None\<close>.
\<close>

record twilioBody =
  Body :: "jsstring option"
  MediaContentType0 :: "jsstring option"
  MediaUrl0 :: "jsstring option"

text \<open>The messages \<open>runAgent\<close> hands to the agent (the system prompt is a fixed first message).\<close>

datatype lc_message = SystemMessage | HumanMessage jsstring | AIMessage jsstring

text \<open>
  What one invocation of the agent does, seen from this repository: the calls of the
  \<open>set_reminder\<close> tool it makes (each with the clock readings of that call), then the
  content of its final message, or a failure.
\<close>

record agent_result =
  tool_calls :: "(clock \<times> reminder_args) list"
  final :: "error + jsstring"

text \<open>
  The collaborators outside the source at hand. \<open>twilio_create n to body\<close> is the outcome of
  the \<open>n\<close>-th call of \<open>messages.create\<close>: \<open>None\<close> when Twilio accepts the message, the error
  when it rejects. \<open>isAudioMessage\<close>, \<open>getAudioUrl\<close> and \<open>transcribeAudio\<close> belong to
  services/audio.js; \<open>agent_invoke\<close> is the LangGraph agent; \<open>todays_digest\<close> is the text
  that \<open>sendDailyReminders\<close> builds from the calendar's answer, or the calendar's failure.
\<close>

record collaborators =
  twilio_create :: "nat \<Rightarrow> jsstring option \<Rightarrow> jsstring \<Rightarrow> error option"
  isAudioMessage :: "twilioBody \<Rightarrow> bool"
  getAudioUrl :: "twilioBody \<Rightarrow> jsstring option"
  transcribeAudio :: "jsstring option \<Rightarrow> error + jsstring"
  agent_invoke :: "lc_message list \<Rightarrow> agent_result"
  todays_digest :: "error + jsstring"

text \<open>
  The state of the process: the two module-level maps, and a log of what reached the
  outside world (the number of calls of \<open>messages.create\<close>, the messages Twilio accepted,
  the inputs of the agent's invocations).
\<close>

record world =
  reminders :: reminder_store
  conversationHistory :: "(jsstring option \<times> entry list) list"
  twilio_calls :: nat
  delivered :: "(jsstring option \<times> jsstring) list"
  agent_calls :: "lc_message list list"

text \<open>The \<open>for\<close> loop of \<open>sendWhatsAppMessage\<close>: the first rejected chunk throws.\<close>

fun sendChunks :: "collaborators \<Rightarrow> jsstring option \<Rightarrow> jsstring list \<Rightarrow> world
    \<Rightarrow> (error + unit) \<times> world" where
  "sendChunks C to [] w = (Inr (), w)"
| "sendChunks C to (chunk # chunks) w =
     (case twilio_create C (twilio_calls w) to chunk of
        Some e \<Rightarrow> (Inl e, w\<lparr>twilio_calls := Suc (twilio_calls w)\<rparr>)
      | None \<Rightarrow> sendChunks C to chunks
          (w\<lparr>twilio_calls := Suc (twilio_calls w), delivered := delivered w @ [(to, chunk)]\<rparr>))"

text \<open>
  \<open>sendWhatsAppMessage\<close>; its \<open>catch\<close> logs and rethrows. The result is \<open>None\<close> when
  \<open>splitMessage\<close> does not return.
\<close>

definition sendWhatsAppMessage :: "collaborators \<Rightarrow> jsstring option \<Rightarrow> jsstring \<Rightarrow> world
    \<Rightarrow> ((error + unit) \<times> world) option" where
  "sendWhatsAppMessage C to msg w =
     (case splitMessage msg 1500 of
        None \<Rightarrow> None
      | Some chunks \<Rightarrow> Some (sendChunks C to chunks w))"

text \<open>The three fixed replies of \<open>handleIncomingMessage\<close> (the first and the last start with U+1F605).\<close>

definition APOLOGY_AUDIO :: jsstring where
  "APOLOGY_AUDIO = [0xD83D, 0xDE05]
     @ ascii '' Sorry, I couldn't understand that audio. Could you try again or type your message?''"

definition DIDNT_CATCH :: jsstring where
  "DIDNT_CATCH = ascii ''I didn't catch that. Could you try again?''"

definition OOPS :: jsstring where
  "OOPS = [0xD83D, 0xDE05] @ ascii '' Oops! Something went wrong. Please try again in a moment.''"

text \<open>
  agent/index.js, \<open>runAgent\<close>: the last ten entries of the history become messages, the
  agent runs (its \<open>set_reminder\<close> calls act on the reminder store), and the content of the
  final message, or a default when that is empty, is the response. A failure is rethrown.
\<close>

definition history_messages :: "entry list \<Rightarrow> lc_message list" where
  "history_messages history =
     map (\<lambda>msg. case role msg of User \<Rightarrow> HumanMessage (content msg)
                               | Assistant \<Rightarrow> AIMessage (content msg))
       (drop (length history - 10) history)"

fun run_tool_calls :: "runtime \<Rightarrow> (clock \<times> reminder_args) list \<Rightarrow> reminder_store \<Rightarrow> reminder_store" where
  "run_tool_calls R [] rs = rs"
| "run_tool_calls R ((clk, a) # calls) rs = run_tool_calls R calls (snd (reminder_func R clk a rs))"

definition runAgent :: "collaborators \<Rightarrow> runtime \<Rightarrow> jsstring \<Rightarrow> entry list \<Rightarrow> world
    \<Rightarrow> (error + jsstring) \<times> world" where
  "runAgent C R userMessage history w =
     (let messages = SystemMessage # history_messages history @ [HumanMessage userMessage];
          result = agent_invoke C messages;
          w = w\<lparr>agent_calls := agent_calls w @ [messages],
                reminders := run_tool_calls R (tool_calls result) (reminders w)\<rparr>
      in case final result of
           Inl e \<Rightarrow> (Inl e, w)
         | Inr c \<Rightarrow> (Inr (if c = [] then ascii ''I've completed the task!'' else c), w))"

text \<open>
  Lines 85--93 of \<open>handleIncomingMessage\<close>: \<open>push\<close> of the two entries, then \<open>splice\<close> of
  the oldest entries when more than 20 are held.
\<close>

definition appendTurn :: "entry list \<Rightarrow> jsstring \<Rightarrow> jsstring \<Rightarrow> entry list" where
  "appendTurn history messageText response =
     (let history = history @ [\<lparr>role = User, content = messageText\<rparr>,
                               \<lparr>role = Assistant, content = response\<rparr>]
      in if length history > 20 then drop (length history - 20) history else history)"

text \<open>\<open>conversationHistory.get(from) || []\<close>.\<close>

definition getHistory :: "world \<Rightarrow> jsstring option \<Rightarrow> entry list" where
  "getHistory w from = (case Map_get (conversationHistory w) from of None \<Rightarrow> [] | Some h \<Rightarrow> h)"

text \<open>
  Lines 53--69: the text of the event. For an audio message it is the transcription, and a
  failure of the transcription is the \<open>Inl\<close> case, which the inner \<open>catch\<close> answers.
\<close>

definition resolveContent :: "collaborators \<Rightarrow> twilioBody \<Rightarrow> error + jsstring" where
  "resolveContent C twilioBody =
     (if isAudioMessage C twilioBody then transcribeAudio C (getAudioUrl C twilioBody)
      else Inr (case Body twilioBody of None \<Rightarrow> [] | Some b \<Rightarrow> b))"

text \<open>The \<open>try\<close> block of \<open>handleIncomingMessage\<close>: \<open>Inl\<close> is an error that reaches the outer \<open>catch\<close>.\<close>

definition handleIncomingMessage_try :: "collaborators \<Rightarrow> runtime \<Rightarrow> jsstring option \<Rightarrow> twilioBody
    \<Rightarrow> world \<Rightarrow> ((error + unit) \<times> world) option" where
  "handleIncomingMessage_try C R from twilioBody w =
     (case resolveContent C twilioBody of
        Inl e \<Rightarrow> sendWhatsAppMessage C from APOLOGY_AUDIO w
      | Inr messageText \<Rightarrow>
          if trim messageText = [] then sendWhatsAppMessage C from DIDNT_CATCH w
          else
            (let history = getHistory w from
             in case runAgent C R messageText history w of
                  (Inl e, w) \<Rightarrow> Some (Inl e, w)
                | (Inr response, w) \<Rightarrow>
                    sendWhatsAppMessage C from response
                      (w\<lparr>conversationHistory :=
                           Map_set from (appendTurn history messageText response)
                             (conversationHistory w)\<rparr>)))"

text \<open>\<open>handleIncomingMessage\<close>: the outer \<open>catch\<close> sends the generic apology, which may throw in turn.\<close>

definition handleIncomingMessage :: "collaborators \<Rightarrow> runtime \<Rightarrow> jsstring option \<Rightarrow> twilioBody
    \<Rightarrow> world \<Rightarrow> ((error + unit) \<times> world) option" where
  "handleIncomingMessage C R from twilioBody w =
     (case handleIncomingMessage_try C R from twilioBody w of
        None \<Rightarrow> None
      | Some (Inr u, w) \<Rightarrow> Some (Inr u, w)
      | Some (Inl e, w) \<Rightarrow> sendWhatsAppMessage C from OOPS w)"

text \<open>The environment variables the trigger paths read.\<close>

record config =
  CRON_SECRET :: "jsstring option"
  YOUR_WHATSAPP_NUMBER :: "jsstring option"

definition sendDailyReminders :: "collaborators \<Rightarrow> config \<Rightarrow> world \<Rightarrow> ((error + unit) \<times> world) option" where
  "sendDailyReminders C cfg w =
     (case todays_digest C of
        Inl e \<Rightarrow> Some (Inl e, w)
      | Inr msg \<Rightarrow> sendWhatsAppMessage C (YOUR_WHATSAPP_NUMBER cfg) msg w)"

text \<open>The text of a reminder: U+23F0, \<open> *Reminder:*\<close>, two line feeds, the message.\<close>

definition reminder_text :: "reminder \<Rightarrow> jsstring" where
  "reminder_text reminder = [0x23F0] @ ascii '' *Reminder:*'' @ [0x0A, 0x0A] @ r_message reminder"

text \<open>
  The loop of \<open>processPendingReminders\<close>: a reminder is marked as sent only when its
  message went out; a failure is logged and the loop goes on.
\<close>

fun processLoop :: "collaborators \<Rightarrow> config \<Rightarrow> reminder list \<Rightarrow> world \<Rightarrow> world option" where
  "processLoop C cfg [] w = Some w"
| "processLoop C cfg (reminder # pending) w =
     (case sendWhatsAppMessage C (YOUR_WHATSAPP_NUMBER cfg) (reminder_text reminder) w of
        None \<Rightarrow> None
      | Some (Inr u, w) \<Rightarrow>
          processLoop C cfg pending
            (w\<lparr>reminders := markReminderSent (r_id reminder) (reminders w)\<rparr>)
      | Some (Inl e, w) \<Rightarrow> processLoop C cfg pending w)"

definition processPendingReminders :: "collaborators \<Rightarrow> config \<Rightarrow> int \<Rightarrow> world \<Rightarrow> (nat \<times> world) option" where
  "processPendingReminders C cfg now w =
     (let pending = getPendingReminders now (reminders w)
      in case processLoop C cfg pending w of
           None \<Rightarrow> None
         | Some w \<Rightarrow> Some (length pending, w))"

section \<open>The trigger endpoints (index.js)\<close>

text \<open>
  The values the guard handles: \<open>undefined\<close>, a string, or an array or object that the
  query parser built (for \<open>?secret[]=x\<close>).
\<close>

datatype jsvalue = Undefined | String jsstring | Object

fun truthy :: "jsvalue \<Rightarrow> bool" where
  "truthy Undefined = False"
| "truthy (String s) = (s \<noteq> [])"
| "truthy Object = True"

text \<open>\<open>a || b\<close>.\<close>

definition or_else :: "jsvalue \<Rightarrow> jsvalue \<Rightarrow> jsvalue" where
  "or_else a b = (if truthy a then a else b)"

text \<open>
  \<open>a === b\<close> where \<open>b\<close> is an environment variable, that is \<open>undefined\<close> or a string: an
  object is never strictly equal to either.
\<close>

fun strict_equal :: "jsvalue \<Rightarrow> jsvalue \<Rightarrow> bool" where
  "strict_equal Undefined Undefined = True"
| "strict_equal (String a) (String b) = (a = b)"
| "strict_equal _ _ = False"

definition of_optional :: "jsstring option \<Rightarrow> jsvalue" where
  "of_optional v = (case v of None \<Rightarrow> Undefined | Some s \<Rightarrow> String s)"

record request =
  header_x_cron_secret :: "jsstring option"
  query_secret :: jsvalue

datatype json =
  ErrorJson jsstring
| MessageJson jsstring
| ProcessedJson nat

record response =
  status :: nat
  body :: json

text \<open>A middleware either answers the request or calls \<open>next()\<close>.\<close>

datatype middleware = Responded response | Next

definition supplied_secret :: "request \<Rightarrow> jsvalue" where
  "supplied_secret req = or_else (of_optional (header_x_cron_secret req)) (query_secret req)"

definition validateCronSecret :: "config \<Rightarrow> request \<Rightarrow> middleware" where
  "validateCronSecret cfg req =
     (let secret = supplied_secret req
      in if \<not> strict_equal secret (of_optional (CRON_SECRET cfg))
         then Responded \<lparr>status = 401, body = ErrorJson (ascii ''Unauthorized'')\<rparr>
         else Next)"

definition handleDailySummary :: "collaborators \<Rightarrow> config \<Rightarrow> world \<Rightarrow> (response \<times> world) option" where
  "handleDailySummary C cfg w =
     (case sendDailyReminders C cfg w of
        None \<Rightarrow> None
      | Some (Inr u, w) \<Rightarrow> Some (\<lparr>status = 200, body = MessageJson (ascii ''Daily summary sent'')\<rparr>, w)
      | Some (Inl e, w) \<Rightarrow> Some (\<lparr>status = 500, body = ErrorJson (error_message e)\<rparr>, w))"

definition handleReminders :: "collaborators \<Rightarrow> config \<Rightarrow> int \<Rightarrow> world \<Rightarrow> (response \<times> world) option" where
  "handleReminders C cfg now w =
     (case processPendingReminders C cfg now w of
        None \<Rightarrow> None
      | Some (count, w) \<Rightarrow> Some (\<lparr>status = 200, body = ProcessedJson count\<rparr>, w))"

text \<open>
  The routes \<open>/cron/daily-summary\<close> (GET and POST register the same chain) and
  \<open>/cron/reminders\<close>: the guard, then the handler.
\<close>

definition cron_daily_summary :: "collaborators \<Rightarrow> config \<Rightarrow> request \<Rightarrow> world
    \<Rightarrow> (response \<times> world) option" where
  "cron_daily_summary C cfg req w =
     (case validateCronSecret cfg req of
        Responded res \<Rightarrow> Some (res, w)
      | Next \<Rightarrow> handleDailySummary C cfg w)"

definition cron_reminders :: "collaborators \<Rightarrow> config \<Rightarrow> int \<Rightarrow> request \<Rightarrow> world
    \<Rightarrow> (response \<times> world) option" where
  "cron_reminders C cfg now req w =
     (case validateCronSecret cfg req of
        Responded res \<Rightarrow> Some (res, w)
      | Next \<Rightarrow> handleReminders C cfg now w)"

section \<open>Worked examples\<close>

text \<open>
  Collaborators for the worked examples: Twilio accepts every message, a body with a
  media URL is an audio message, the transcription always fails, and the agent answers
  \<open>ok\<close> without calling a tool. \<open>twilio_down\<close> differs in that Twilio rejects every message.
\<close>

definition example_collaborators :: collaborators where
  "example_collaborators =
     \<lparr>twilio_create = (\<lambda>n to body. None),
      isAudioMessage = (\<lambda>b. MediaUrl0 b \<noteq> None),
      getAudioUrl = MediaUrl0,
      transcribeAudio = (\<lambda>url. Inl (Rejected (ascii ''transcription failed''))),
      agent_invoke = (\<lambda>messages. \<lparr>tool_calls = [], final = Inr (ascii ''ok'')\<rparr>),
      todays_digest = Inr (ascii ''No events scheduled for today.'')\<rparr>"

definition twilio_down :: collaborators where
  "twilio_down = example_collaborators
     \<lparr>twilio_create := (\<lambda>n to body. Some (Rejected (ascii ''twilio unavailable'')))\<rparr>"

definition example_world :: world where
  "example_world = \<lparr>reminders = [], conversationHistory = [], twilio_calls = 0, delivered = [],
                     agent_calls = []\<rparr>"

definition example_sender :: "jsstring option" where
  "example_sender = Some (ascii ''whatsapp:+15550001111'')"

definition audio_event :: twilioBody where
  "audio_event = \<lparr>Body = None, MediaContentType0 = Some (ascii ''audio/ogg''),
                   MediaUrl0 = Some (ascii ''https://api.twilio.com/media/1'')\<rparr>"

definition text_event :: twilioBody where
  "text_event = \<lparr>Body = Some (ascii ''hello''), MediaContentType0 = None, MediaUrl0 = None\<rparr>"

text \<open>A world that holds one reminder, due at 1700000000000 and not yet sent.\<close>

definition due_world :: world where
  "due_world = example_world
     \<lparr>reminders := [(example_id, \<lparr>r_id = example_id, r_message = ascii ''call mom'',
          triggerAt = Some 1700000000000, createdAt = Some 1699990000000, sent = False\<rparr>)]\<rparr>"

definition example_config :: config where
  "example_config = \<lparr>CRON_SECRET = Some (ascii ''s3cret''),
                      YOUR_WHATSAPP_NUMBER = Some (ascii ''whatsapp:+15550002222'')\<rparr>"

text \<open>
  A sequence of completed turns, each a user text and the response to it, applied to a
  history one after the other; and the entries those turns write, in order.
\<close>

definition appendTurns :: "entry list \<Rightarrow> (jsstring \<times> jsstring) list \<Rightarrow> entry list" where
  "appendTurns history turns = foldl (\<lambda>h (u, a). appendTurn h u a) history turns"

definition turn_entries :: "(jsstring \<times> jsstring) list \<Rightarrow> entry list" where
  "turn_entries turns =
     concat (map (\<lambda>(u, a). [\<lparr>role = User, content = u\<rparr>, \<lparr>role = Assistant, content = a\<rparr>]) turns)"

text \<open>Eleven turns: \<open>q1\<close>/\<open>r1\<close> up to \<open>q11\<close>/\<open>r11\<close>.\<close>

definition example_turns :: "(jsstring \<times> jsstring) list" where
  "example_turns = map (\<lambda>n. (ascii ''q'' @ digits n, ascii ''r'' @ digits n)) [1 ..< 12]"

text \<open>A store of four reminders: one due, one already sent, one in the future, one with an Invalid Date.\<close>

definition example_store :: reminder_store where
  "example_store =
     [(ascii ''rem_1'', \<lparr>r_id = ascii ''rem_1'', r_message = ascii ''due'',
         triggerAt = Some 500, createdAt = Some 1, sent = False\<rparr>),
      (ascii ''rem_2'', \<lparr>r_id = ascii ''rem_2'', r_message = ascii ''sent'',
         triggerAt = Some 500, createdAt = Some 2, sent = True\<rparr>),
      (ascii ''rem_3'', \<lparr>r_id = ascii ''rem_3'', r_message = ascii ''future'',
         triggerAt = Some 2000, createdAt = Some 3, sent = False\<rparr>),
      (ascii ''rem_4'', \<lparr>r_id = ascii ''rem_4'', r_message = ascii ''invalid'',
         triggerAt = None, createdAt = Some 4, sent = False\<rparr>)]"

section \<open>Properties of the chunking\<close>

lemma lastIndexOf_range:
  "lastIndexOf s c k = - 1 \<or>
   (0 \<le> lastIndexOf s c k \<and> lastIndexOf s c k \<le> int k \<and>
    nat (lastIndexOf s c k) < length s \<and> s ! nat (lastIndexOf s c k) = c)"
  by (induction k) (auto simp: nat_add_distrib)

lemma lastIndexOf_absent: "c \<notin> set s \<Longrightarrow> lastIndexOf s c k = - 1"
proof (induction k)
  case 0
  then show ?case by (cases s) auto
next
  case (Suc k)
  then show ?case by (auto dest: nth_mem)
qed

lemma findBreakPoint_range: "0 \<le> findBreakPoint r n \<and> findBreakPoint r n \<le> int n"
  using lastIndexOf_range [of r "0x0A" n] lastIndexOf_range [of r "0x20" n]
  by (auto simp: findBreakPoint_def Let_def)

lemma findBreakPoint_zero:
  assumes "1 \<le> n" and "findBreakPoint r n = 0"
  shows "r \<noteq> [] \<and> r ! 0 = 0x20"
proof -
  from assms have sp: "lastIndexOf r 0x20 n = 0"
    by (auto simp: findBreakPoint_def Let_def split: if_splits)
  with lastIndexOf_range [of r "0x20" n] show ?thesis by auto
qed

lemma findBreakPoint_no_ws:
  assumes "\<forall>c\<in>set r. \<not> is_ws c"
  shows "findBreakPoint r n = int n"
proof -
  have "(0x0A :: 16 word) \<notin> set r" "(0x20 :: 16 word) \<notin> set r"
    using assms by (auto simp: is_ws_def)
  then show ?thesis
    by (simp add: findBreakPoint_def lastIndexOf_absent)
qed

lemma length_trim_le: "length (trim s) \<le> length s"
proof -
  have "length (trim s) \<le> length (dropWhile is_ws s)"
    unfolding trim_def using length_dropWhile_le [of is_ws "rev (dropWhile is_ws s)"] by simp
  also have "\<dots> \<le> length s" by (rule length_dropWhile_le)
  finally show ?thesis .
qed

lemma length_trim_ws_head:
  assumes "s \<noteq> []" and "is_ws (s ! 0)"
  shows "length (trim s) < length s"
proof -
  from assms obtain c t where s: "s = c # t" and c: "is_ws c" by (cases s) auto
  have "length (trim s) \<le> length (dropWhile is_ws s)"
    unfolding trim_def using length_dropWhile_le [of is_ws "rev (dropWhile is_ws s)"] by simp
  also have "\<dots> \<le> length t" using s c by (simp add: length_dropWhile_le)
  finally show ?thesis using s by simp
qed

lemma trim_no_ws: "\<forall>c\<in>set s. \<not> is_ws c \<Longrightarrow> trim s = s"
proof -
  assume a: "\<forall>c\<in>set s. \<not> is_ws c"
  then have "dropWhile is_ws s = s" by (cases s) auto
  moreover from a have "dropWhile is_ws (rev s) = rev s" by (cases "rev s") auto
  ultimately show ?thesis by (simp add: trim_def)
qed

lemma splitLoop_shrinks:
  assumes "1 \<le> n" and "n < length r"
  shows "length (trim (substring_from r (nat (findBreakPoint r n)))) < length r"
proof (cases "findBreakPoint r n = 0")
  case True
  with assms(1) have "r \<noteq> []" "r ! 0 = 0x20" using findBreakPoint_zero by blast+
  then have "length (trim r) < length r"
    by (intro length_trim_ws_head) (simp_all add: is_ws_def)
  with True show ?thesis by (simp add: substring_from_def)
next
  case False
  with findBreakPoint_range [of r n] have "0 < nat (findBreakPoint r n)" by simp
  with assms(2) have "length (substring_from r (nat (findBreakPoint r n))) < length r"
    by (simp add: substring_from_def)
  with length_trim_le [of "substring_from r (nat (findBreakPoint r n))"] show ?thesis by simp
qed

lemma length_substring_prefix: "length (substring r 0 (nat (findBreakPoint r n))) \<le> n"
  using findBreakPoint_range [of r n] by (auto simp: substring_def)

lemma splitLoop_total:
  assumes "1 \<le> n"
  shows "\<forall>c\<in>set chunks. length c \<le> n \<Longrightarrow>
         \<exists>cs. splitLoop n chunks r = Some cs \<and> (\<forall>c\<in>set cs. length c \<le> n)"
proof (induction "length r" arbitrary: r chunks rule: less_induct)
  case less
  show ?case
  proof (cases "length r \<le> n")
    case True
    with less.prems show ?thesis
      by (subst splitLoop.simps) auto
  next
    case False
    define b where "b = nat (findBreakPoint r n)"
    define r' where "r' = trim (substring_from r b)"
    define chunks' where "chunks' = chunks @ [substring r 0 b]"
    from False assms have "length r' < length r"
      unfolding r'_def b_def by (intro splitLoop_shrinks) simp_all
    moreover have "\<forall>c\<in>set chunks'. length c \<le> n"
      using less.prems length_substring_prefix [of r n] by (auto simp: chunks'_def b_def)
    ultimately obtain cs where cs: "splitLoop n chunks' r' = Some cs" "\<forall>c\<in>set cs. length c \<le> n"
      using less.hyps by blast
    from False have "r \<noteq> []" by auto
    with False have "splitLoop n chunks r = splitLoop n chunks' r'"
      by (subst splitLoop.simps) (simp add: Let_def b_def r'_def chunks'_def)
    with cs show ?thesis by simp
  qed
qed

lemma splitMessage_total:
  assumes "1 \<le> n"
  shows "\<exists>cs. splitMessage m n = Some cs \<and> (\<forall>c\<in>set cs. length c \<le> n)"
proof (cases "length m \<le> n")
  case True
  then show ?thesis by (simp add: splitMessage_def)
next
  case False
  then show ?thesis using splitLoop_total [OF assms, of "[]" m] by (simp add: splitMessage_def)
qed

lemma splitMessage_short: "length m \<le> n \<Longrightarrow> splitMessage m n = Some [m]"
  by (simp add: splitMessage_def)

lemma splitMessage_hard_cut:
  assumes len: "length m = 2 * n" and n: "1 \<le> n" and nows: "\<forall>c\<in>set m. \<not> is_ws c"
  shows "splitMessage m n = Some [take n m, drop n m]"
proof -
  have rest: "\<forall>c\<in>set (drop n m). \<not> is_ws c" using nows by (auto dest: in_set_dropD)
  have "splitMessage m n = splitLoop n [] m" using len n by (simp add: splitMessage_def)
  also have "\<dots> = splitLoop n [take n m] (drop n m)"
    using len n findBreakPoint_no_ws [OF nows, of n] trim_no_ws [OF rest]
    by (subst splitLoop.simps) (simp add: Let_def substring_def substring_from_def)
  also have "\<dots> = Some [take n m, drop n m]"
    using len n by (subst splitLoop.simps) simp
  finally show ?thesis .
qed

text \<open>
  C6. For every text and every \<open>maxLength \<ge> 1\<close>, \<open>splitMessage\<close> returns, and every chunk
  it returns has at most \<open>maxLength\<close> code units; a text of at most \<open>maxLength\<close> code units
  gives the single chunk equal to the text; a text of 3000 code units without whitespace,
  split at 1500, gives exactly two chunks whose concatenation is the text.
\<close>

theorem splitMessage_chunks:
  assumes "1 \<le> maxLength"
  shows "\<exists>chunks. splitMessage msg maxLength = Some chunks
           \<and> (\<forall>c\<in>set chunks. length c \<le> maxLength)
           \<and> (length msg \<le> maxLength \<longrightarrow> chunks = [msg])
           \<and> (maxLength = 1500 \<and> length msg = 3000 \<and> (\<forall>c\<in>set msg. \<not> is_ws c)
                \<longrightarrow> length chunks = 2 \<and> concat chunks = msg)"
proof -
  from splitMessage_total [OF assms, of msg] obtain chunks
    where c: "splitMessage msg maxLength = Some chunks" "\<forall>c\<in>set chunks. length c \<le> maxLength"
    by blast
  have short: "length msg \<le> maxLength \<longrightarrow> chunks = [msg]"
    using c(1) by (auto simp: splitMessage_short)
  have long: "maxLength = 1500 \<and> length msg = 3000 \<and> (\<forall>c\<in>set msg. \<not> is_ws c)
                \<longrightarrow> length chunks = 2 \<and> concat chunks = msg"
  proof
    assume h: "maxLength = 1500 \<and> length msg = 3000 \<and> (\<forall>c\<in>set msg. \<not> is_ws c)"
    then have "splitMessage msg maxLength = Some [take maxLength msg, drop maxLength msg]"
      by (intro splitMessage_hard_cut) simp_all
    with c(1) have "chunks = [take maxLength msg, drop maxLength msg]" by simp
    then show "length chunks = 2 \<and> concat chunks = msg" by simp
  qed
  from c short long show ?thesis by blast
qed

theorem splitMessage_chunks_witness:
  "splitMessage (replicate 3000 0x61) 1500 = Some [replicate 1500 0x61, replicate 1500 0x61]
   \<and> splitMessage (ascii ''hello'') 1500 = Some [ascii ''hello'']"
proof -
  have one: "(1::nat) \<le> 1500" by simp
  have nows: "\<forall>c\<in>set (replicate 3000 (0x61 :: 16 word)). \<not> is_ws c"
    by (simp add: is_ws_def)
  from splitMessage_chunks [OF one, of "replicate 3000 0x61"] obtain chunks where
    c: "splitMessage (replicate 3000 0x61) 1500 = Some chunks"
       "\<forall>c\<in>set chunks. length c \<le> 1500" "length chunks = 2"
       "concat chunks = replicate 3000 0x61"
    using nows by auto
  from c(3) obtain a b where ab: "chunks = [a, b]"
    by (cases chunks; cases "tl chunks"; cases "tl (tl chunks)") auto
  with c(2) have la: "length a \<le> 1500" and lb: "length b \<le> 1500" by simp_all
  from c(4) ab have cat: "a @ b = replicate 3000 0x61" by simp
  then have "length a + length b = 3000" by (metis length_append length_replicate)
  with la lb have "length a = 1500" by simp
  with cat have "a = take 1500 (replicate 3000 0x61)" "b = drop 1500 (replicate 3000 0x61)"
    by (metis append_eq_conv_conj)+
  then have "a = replicate 1500 0x61" "b = replicate 1500 0x61" by simp_all
  with c(1) ab have first: "splitMessage (replicate 3000 0x61) 1500
      = Some [replicate 1500 0x61, replicate 1500 0x61]" by simp
  from splitMessage_chunks [OF one, of "ascii ''hello''"]
  have "splitMessage (ascii ''hello'') 1500 = Some [ascii ''hello'']"
    by (auto simp: ascii_def)
  with first show ?thesis by simp
qed

section \<open>Properties of the reminder store\<close>

lemma number_to_string_example: "number_to_string 1700000000000 = ascii ''1700000000000''"
  by (simp add: number_to_string_def digits.simps ascii_def)

lemma example_id_eq: "ascii ''rem_'' @ number_to_string (now_id example_clock) = example_id"
  by (simp add: example_clock_def number_to_string_example example_id_def) (simp add: ascii_def)

lemma Map_get_Map_set: "Map_get (Map_set k v m) k = Some v"
  by (induction m) (auto simp: Map_get_def)

lemma pendingLoop_filter:
  "pendingLoop now rs pending
     = pending @ filter (\<lambda>r. \<not> sent r \<and> date_le (triggerAt r) (Some now)) (map snd rs)"
  by (induction rs arbitrary: pending) auto

lemma date_le_Some: "date_le d (Some now) \<longleftrightarrow> (\<exists>t. d = Some t \<and> t \<le> now)"
  by (cases d) (simp_all add: date_le_def)

lemma pending_valid:
  "r \<in> set (getPendingReminders now rs) \<Longrightarrow> \<not> sent r \<and> (\<exists>t. triggerAt r = Some t \<and> t \<le> now)"
  by (auto simp: getPendingReminders_def pendingLoop_filter date_le_Some)

text \<open>
  C1, as the claim states it, fails. At the example clock, a call with no explicit time
  and no offset at all returns the success payload and the store holds a new item, due at
  the clock reading.
\<close>

theorem reminder_no_timing_counterexample:
  "reminder_func example_runtime example_clock example_args []
   = (Success example_id (ascii ''call mom'') (ascii ''1700000000000''),
      [(example_id, \<lparr>r_id = example_id, r_message = ascii ''call mom'',
          triggerAt = Some 1700000000000, createdAt = Some 1700000000000, sent = False\<rparr>)])"
  by (simp add: reminder_func_def computeTriggerAt_def truthy_string_def truthy_number_def
        format_def Let_def example_args_def example_id_eq)
     (simp add: example_runtime_def example_clock_def number_to_string_example)

text \<open>
  C1, amended. A call with no explicit time and with \<open>delayMinutes\<close>, \<open>delayHours\<close> and
  \<open>delayDays\<close> all absent does not fail: it stores an item whose due time is the clock
  reading of the call, not yet sent, and returns the success payload with the item's id.
\<close>

theorem reminder_no_timing_succeeds:
  "reminder_func R clk \<lparr>message = m, delayMinutes = None, delayHours = None, delayDays = None,
       specificTime = None\<rparr> rs
   = (Success (ascii ''rem_'' @ number_to_string (now_id clk)) m (format_pattern R (now_trigger clk)),
      Map_set (ascii ''rem_'' @ number_to_string (now_id clk))
        \<lparr>r_id = ascii ''rem_'' @ number_to_string (now_id clk), r_message = m,
         triggerAt = Some (now_trigger clk), createdAt = Some (now_created clk), sent = False\<rparr> rs)"
  by (simp add: reminder_func_def computeTriggerAt_def truthy_string_def truthy_number_def
        format_def Let_def)

theorem reminder_no_timing_succeeds_witness:
  "reminder_func example_runtime example_clock
     \<lparr>message = ascii ''buy milk'', delayMinutes = None, delayHours = None, delayDays = None,
      specificTime = None\<rparr> []
   = (Success example_id (ascii ''buy milk'') (ascii ''1700000000000''),
      [(example_id, \<lparr>r_id = example_id, r_message = ascii ''buy milk'',
          triggerAt = Some 1700000000000, createdAt = Some 1700000000000, sent = False\<rparr>)])"
  using reminder_no_timing_succeeds [of example_runtime example_clock "ascii ''buy milk''" "[]"]
  by (simp add: example_id_eq) (simp add: example_runtime_def example_clock_def number_to_string_example)

text \<open>
  C2. The code breaks the claim. Two calls that read the same millisecond from
  \<open>Date.now()\<close> return the same id, and the second call's \<open>set\<close> replaces the item of the
  first: after both, the store holds one item, the second.
\<close>

theorem reminder_id_collision:
  "reminder_func example_runtime example_clock (example_args\<lparr>delayMinutes := Some 5\<rparr>) []
   = (Success example_id (ascii ''call mom'') (ascii ''1700000300000''),
      [(example_id, \<lparr>r_id = example_id, r_message = ascii ''call mom'',
          triggerAt = Some 1700000300000, createdAt = Some 1700000000000, sent = False\<rparr>)])
   \<and> reminder_func example_runtime example_clock
       (example_args\<lparr>message := ascii ''buy milk'', delayMinutes := Some 10\<rparr>)
       [(example_id, \<lparr>r_id = example_id, r_message = ascii ''call mom'',
          triggerAt = Some 1700000300000, createdAt = Some 1700000000000, sent = False\<rparr>)]
   = (Success example_id (ascii ''buy milk'') (ascii ''1700000600000''),
      [(example_id, \<lparr>r_id = example_id, r_message = ascii ''buy milk'',
          triggerAt = Some 1700000600000, createdAt = Some 1700000000000, sent = False\<rparr>)])"
proof -
  have fmt: "number_to_string 1700000300000 = ascii ''1700000300000''"
       "number_to_string 1700000600000 = ascii ''1700000600000''"
    by (simp_all add: number_to_string_def digits.simps ascii_def)
  show ?thesis
    by (simp add: reminder_func_def computeTriggerAt_def truthy_string_def truthy_number_def
        format_def Let_def example_args_def example_id_eq addMinutes_def addMilliseconds_def
        TimeClip_def ToIntegerOrInfinity_def maxTime_def)
       (simp add: example_clock_def example_runtime_def fmt)
qed








text \<open>
  Two more inputs at which the sum is not reached, on a host on UTC. With
  \<open>delayDays = 1.5\<close> the half day is dropped: the due time is one day after the creation
  time. With \<open>delayDays = 200000000\<close> the due time would lie beyond the largest time value
  of a \<open>Date\<close>: the stored item has an Invalid Date and the call returns the failure payload.
\<close>

lemma reminder_offsets_fractional_days:
  "reminder_func example_runtime example_clock (example_args\<lparr>delayDays := Some (3 / 2)\<rparr>) []
   = (Success example_id (ascii ''call mom'') (ascii ''1700086400000''),
      [(example_id, \<lparr>r_id = example_id, r_message = ascii ''call mom'',
          triggerAt = Some 1700086400000, createdAt = Some 1700000000000, sent = False\<rparr>)])
   \<and> of_int (now_trigger example_clock) + offsets_sum (example_args\<lparr>delayDays := Some (3 / 2)\<rparr>)
       = 1700129600000"
proof -
  have fmt: "number_to_string 1700086400000 = ascii ''1700086400000''"
    by (simp add: number_to_string_def digits.simps ascii_def)
  have d: "DateFromTime 1700000000000 = 14" by code_simp
  have f: "\<lfloor>31 / 2 :: rat\<rfloor> = 15" by (simp add: floor_eq_iff)
  have t: "computeTriggerAt example_runtime 1700000000000 (example_args\<lparr>delayDays := Some (3 / 2)\<rparr>)
      = Some 1700086400000"
    by (simp add: computeTriggerAt_def truthy_string_def truthy_number_def example_args_def
          addDays_def setDate_def getDate_def LocalTime_def UTC_def d msPerDay_def
          example_runtime_def TimeClip_def ToIntegerOrInfinity_def
          maxTime_def Let_def f)
  have now: "now_trigger example_clock = 1700000000000" by (simp add: example_clock_def)
  show ?thesis
    by (simp add: reminder_func_def Let_def example_id_eq format_def now t)
       (simp add: example_clock_def example_runtime_def fmt
          example_args_def offsets_sum_def offset_ms_def)
qed

lemma reminder_offsets_out_of_range:
  "reminder_func example_runtime example_clock (example_args\<lparr>delayDays := Some 200000000\<rparr>) []
   = (Failure (ascii ''Invalid time value''),
      [(example_id, \<lparr>r_id = example_id, r_message = ascii ''call mom'',
          triggerAt = None, createdAt = Some 1700000000000, sent = False\<rparr>)])"
proof -
  have d: "DateFromTime 1700000000000 = 14" by code_simp
  have t: "computeTriggerAt example_runtime 1700000000000 (example_args\<lparr>delayDays := Some 200000000\<rparr>)
      = None"
    by (simp add: computeTriggerAt_def truthy_string_def truthy_number_def example_args_def
          addDays_def setDate_def getDate_def LocalTime_def UTC_def d msPerDay_def
          example_runtime_def TimeClip_def ToIntegerOrInfinity_def
          maxTime_def Let_def)
  have now: "now_trigger example_clock = 1700000000000" by (simp add: example_clock_def)
  show ?thesis
    by (simp add: reminder_func_def Let_def example_id_eq format_def now t)
       (simp add: example_clock_def example_args_def)
qed



text \<open>
  C4. For every store and every time \<open>now\<close>, \<open>getPendingReminders\<close> returns exactly the
  items that are not sent and whose due time is at most \<open>now\<close>, in the order of the store:
  no item it returns is marked as sent or due in the future (or has an Invalid Date), and
  every stored item that is unsent and due is returned.
\<close>

theorem getPendingReminders_exact:
  "getPendingReminders now rs
     = filter (\<lambda>r. \<not> sent r \<and> date_le (triggerAt r) (Some now)) (map snd rs)
   \<and> (\<forall>r\<in>set (getPendingReminders now rs). \<not> sent r \<and> (\<exists>t. triggerAt r = Some t \<and> t \<le> now))
   \<and> (\<forall>r\<in>snd ` set rs. \<not> sent r \<and> (\<exists>t. triggerAt r = Some t \<and> t \<le> now)
          \<longrightarrow> r \<in> set (getPendingReminders now rs))"
  by (auto simp: getPendingReminders_def pendingLoop_filter date_le_Some)

theorem getPendingReminders_exact_witness:
  "getPendingReminders 1000 example_store
     = [\<lparr>r_id = ascii ''rem_1'', r_message = ascii ''due'', triggerAt = Some 500,
         createdAt = Some 1, sent = False\<rparr>]"
  using getPendingReminders_exact [of 1000 example_store]
  by (simp add: example_store_def date_le_def)

text \<open>
  C9, as the claim states it, fails. The empty string does not parse to a valid date, yet
  a call with \<open>specificTime = ''\<close> does not reach \<open>new Date(specificTime)\<close>: the test of line
  26 is false for it, the due time is the clock reading, and the call returns the success
  payload with a valid item stored.
\<close>

theorem invalid_time_counterexample:
  "new_Date example_runtime [] = None
   \<and> reminder_func example_runtime example_clock (example_args\<lparr>specificTime := Some []\<rparr>) []
    = (Success example_id (ascii ''call mom'') (ascii ''1700000000000''),
       [(example_id, \<lparr>r_id = example_id, r_message = ascii ''call mom'',
          triggerAt = Some 1700000000000, createdAt = Some 1700000000000, sent = False\<rparr>)])"
proof -
  have "new_Date example_runtime [] = None"
    by (simp add: new_Date_def example_runtime_def ascii_def)
  moreover have "reminder_func example_runtime example_clock
      (example_args\<lparr>specificTime := Some []\<rparr>) []
    = (Success example_id (ascii ''call mom'') (ascii ''1700000000000''),
       [(example_id, \<lparr>r_id = example_id, r_message = ascii ''call mom'',
          triggerAt = Some 1700000000000, createdAt = Some 1700000000000, sent = False\<rparr>)])"
    by (simp add: reminder_func_def computeTriggerAt_def truthy_string_def truthy_number_def
          format_def Let_def example_args_def example_id_eq)
       (simp add: example_runtime_def example_clock_def number_to_string_example)
  ultimately show ?thesis by simp
qed

text \<open>
  C9, amended. A call whose \<open>specificTime\<close> is a non-empty string that does not parse to a
  valid date (\<open>new Date\<close> of it is an Invalid Date) returns the failure payload, yet the
  store then holds under the new id an item with an Invalid Date as its due time; and at
  no time \<open>now\<close> does \<open>getPendingReminders\<close> return that item.
\<close>

theorem invalid_time_not_atomic:
  assumes "specificTime a = Some s" and "s \<noteq> []" and "new_Date R s = None"
  shows "reminder_func R clk a rs
    = (Failure (ascii ''Invalid time value''),
       Map_set (ascii ''rem_'' @ number_to_string (now_id clk))
         \<lparr>r_id = ascii ''rem_'' @ number_to_string (now_id clk), r_message = message a,
          triggerAt = None, createdAt = Some (now_created clk), sent = False\<rparr> rs)
    \<and> Map_get (snd (reminder_func R clk a rs)) (ascii ''rem_'' @ number_to_string (now_id clk))
        = Some \<lparr>r_id = ascii ''rem_'' @ number_to_string (now_id clk), r_message = message a,
          triggerAt = None, createdAt = Some (now_created clk), sent = False\<rparr>
    \<and> (\<forall>now. \<lparr>r_id = ascii ''rem_'' @ number_to_string (now_id clk), r_message = message a,
          triggerAt = None, createdAt = Some (now_created clk), sent = False\<rparr>
          \<notin> set (getPendingReminders now (snd (reminder_func R clk a rs))))"
proof -
  have eq: "reminder_func R clk a rs
    = (Failure (ascii ''Invalid time value''),
       Map_set (ascii ''rem_'' @ number_to_string (now_id clk))
         \<lparr>r_id = ascii ''rem_'' @ number_to_string (now_id clk), r_message = message a,
          triggerAt = None, createdAt = Some (now_created clk), sent = False\<rparr> rs)"
    using assms
    by (simp add: reminder_func_def computeTriggerAt_def truthy_string_def format_def Let_def)
  show ?thesis
    using pending_valid by (fastforce simp: eq Map_get_Map_set)
qed

theorem invalid_time_not_atomic_witness:
  "reminder_func example_runtime example_clock
     (example_args\<lparr>specificTime := Some (ascii ''not a date'')\<rparr>) []
    = (Failure (ascii ''Invalid time value''),
       [(example_id, \<lparr>r_id = example_id, r_message = ascii ''call mom'',
          triggerAt = None, createdAt = Some 1700000000000, sent = False\<rparr>)])"
proof -
  have p: "new_Date example_runtime (ascii ''not a date'') = None"
    by (simp add: new_Date_def example_runtime_def ascii_def)
  have n: "ascii ''not a date'' \<noteq> []" by (simp add: ascii_def)
  show ?thesis
    using invalid_time_not_atomic
      [of "example_args\<lparr>specificTime := Some (ascii ''not a date'')\<rparr>"
        "ascii ''not a date''" example_runtime example_clock "[]"] p n
    by (simp add: example_id_eq) (simp add: example_args_def example_clock_def)
qed

section \<open>Properties of the gateway and the dispatcher\<close>

lemma sendWhatsAppMessage_short:
  "length msg \<le> 1500 \<Longrightarrow> sendWhatsAppMessage C to msg w = Some (sendChunks C to [msg] w)"
  by (simp add: sendWhatsAppMessage_def splitMessage_short)

lemma length_fixed_replies:
  "length APOLOGY_AUDIO \<le> 1500" "length DIDNT_CATCH \<le> 1500" "length OOPS \<le> 1500"
  by (simp_all add: APOLOGY_AUDIO_def DIDNT_CATCH_def OOPS_def ascii_def)

lemma sendChunks_single:
  "sendChunks C to [msg] w =
     (case twilio_create C (twilio_calls w) to msg of
        Some e \<Rightarrow> (Inl e, w\<lparr>twilio_calls := Suc (twilio_calls w)\<rparr>)
      | None \<Rightarrow> (Inr (), w\<lparr>twilio_calls := Suc (twilio_calls w), delivered := delivered w @ [(to, msg)]\<rparr>))"
  by (simp split: option.splits)

lemma sendChunks_keeps:
  "sendChunks C to chunks w = (res, w') \<Longrightarrow>
     reminders w' = reminders w \<and> conversationHistory w' = conversationHistory w
     \<and> agent_calls w' = agent_calls w"
  by (induction chunks arbitrary: w) (auto split: option.splits)

lemma sendWhatsAppMessage_total: "\<exists>res w'. sendWhatsAppMessage C to msg w = Some (res, w')"
proof -
  have "(1::nat) \<le> 1500" by simp
  from splitMessage_total [OF this, of msg] obtain cs where "splitMessage msg 1500 = Some cs"
    by blast
  then show ?thesis by (cases "sendChunks C to cs w") (simp add: sendWhatsAppMessage_def)
qed

lemma sendWhatsAppMessage_keeps:
  "sendWhatsAppMessage C to msg w = Some (res, w') \<Longrightarrow>
     reminders w' = reminders w \<and> conversationHistory w' = conversationHistory w
     \<and> agent_calls w' = agent_calls w"
  by (auto simp: sendWhatsAppMessage_def split: option.splits dest: sendChunks_keeps)

text \<open>
  C7, as the claim states it, fails. When the transcription fails and Twilio rejects every
  message, the call of \<open>messages.create\<close> for the apology throws, the outer \<open>catch\<close> tries
  the generic apology, and that throws as well: two calls of the transport, no message
  sent, and the error leaves \<open>handleIncomingMessage\<close>.
\<close>

theorem audio_failure_counterexample:
  "handleIncomingMessage twilio_down example_runtime example_sender audio_event example_world
   = Some (Inl (Rejected (ascii ''twilio unavailable'')), example_world\<lparr>twilio_calls := 2\<rparr>)"
  by (simp add: handleIncomingMessage_def handleIncomingMessage_try_def resolveContent_def
        sendWhatsAppMessage_short length_fixed_replies twilio_down_def example_collaborators_def
        audio_event_def example_world_def)

text \<open>
  C7, amended. For every inbound audio event whose transcription fails, the first call of
  the transport carries the fixed apology to the sender. When Twilio accepts it, it is the
  only message of the event and processing ends. When Twilio rejects it, the generic
  apology is tried once, and if that is rejected too its error is thrown. In every case
  \<open>handleIncomingMessage\<close> returns, the session histories are as before, and \<open>runAgent\<close> has
  not been invoked.
\<close>

theorem audio_failure_apology:
  assumes "isAudioMessage C twilioBody"
    and "transcribeAudio C (getAudioUrl C twilioBody) = Inl e"
  shows "handleIncomingMessage C R sender twilioBody w =
     (case twilio_create C (twilio_calls w) sender APOLOGY_AUDIO of
        None \<Rightarrow> Some (Inr (), w\<lparr>twilio_calls := Suc (twilio_calls w),
                                  delivered := delivered w @ [(sender, APOLOGY_AUDIO)]\<rparr>)
      | Some e1 \<Rightarrow>
          (case twilio_create C (Suc (twilio_calls w)) sender OOPS of
             None \<Rightarrow> Some (Inr (), w\<lparr>twilio_calls := Suc (Suc (twilio_calls w)),
                                       delivered := delivered w @ [(sender, OOPS)]\<rparr>)
           | Some e2 \<Rightarrow> Some (Inl e2, w\<lparr>twilio_calls := Suc (Suc (twilio_calls w))\<rparr>)))
    \<and> (\<exists>res w'. handleIncomingMessage C R sender twilioBody w = Some (res, w')
          \<and> conversationHistory w' = conversationHistory w
          \<and> agent_calls w' = agent_calls w
          \<and> reminders w' = reminders w)"
proof -
  have r: "resolveContent C twilioBody = Inl e"
    using assms by (simp add: resolveContent_def)
  have eq: "handleIncomingMessage C R sender twilioBody w =
     (case twilio_create C (twilio_calls w) sender APOLOGY_AUDIO of
        None \<Rightarrow> Some (Inr (), w\<lparr>twilio_calls := Suc (twilio_calls w),
                                  delivered := delivered w @ [(sender, APOLOGY_AUDIO)]\<rparr>)
      | Some e1 \<Rightarrow>
          (case twilio_create C (Suc (twilio_calls w)) sender OOPS of
             None \<Rightarrow> Some (Inr (), w\<lparr>twilio_calls := Suc (Suc (twilio_calls w)),
                                       delivered := delivered w @ [(sender, OOPS)]\<rparr>)
           | Some e2 \<Rightarrow> Some (Inl e2, w\<lparr>twilio_calls := Suc (Suc (twilio_calls w))\<rparr>)))"
    by (simp add: handleIncomingMessage_def handleIncomingMessage_try_def r
          sendWhatsAppMessage_short length_fixed_replies sendChunks_single
        split: option.splits)
  have "\<exists>res w'. handleIncomingMessage C R sender twilioBody w = Some (res, w')
          \<and> conversationHistory w' = conversationHistory w
          \<and> agent_calls w' = agent_calls w
          \<and> reminders w' = reminders w"
    unfolding eq by (simp split: option.splits)
  with eq show ?thesis by blast
qed

theorem audio_failure_apology_witness:
  "handleIncomingMessage example_collaborators example_runtime example_sender audio_event example_world
   = Some (Inr (), example_world\<lparr>twilio_calls := 1, delivered := [(example_sender, APOLOGY_AUDIO)]\<rparr>)"
  using audio_failure_apology
    [of example_collaborators audio_event "Rejected (ascii ''transcription failed'')"
      example_runtime example_sender example_world]
  by (simp add: example_collaborators_def audio_event_def example_world_def)

lemma appendTurn_length: "length (appendTurn h u a) \<le> 20"
  by (simp add: appendTurn_def Let_def)

lemma appendTurn_drop:
  "appendTurn h u a
     = drop (length h + 2 - 20) (h @ [\<lparr>role = User, content = u\<rparr>, \<lparr>role = Assistant, content = a\<rparr>])"
  by (simp add: appendTurn_def Let_def)

lemma appendTurns_drop:
  "length h \<le> 20 \<Longrightarrow>
   appendTurns h turns = drop (length h + 2 * length turns - 20) (h @ turn_entries turns)"
proof (induction turns arbitrary: h)
  case Nil
  then show ?case by (simp add: appendTurns_def turn_entries_def)
next
  case (Cons t turns)
  obtain u a where t: "t = (u, a)" by (cases t)
  let ?e = "[\<lparr>role = User, content = u\<rparr>, \<lparr>role = Assistant, content = a\<rparr>]"
  let ?k = "length h + 2 - 20"
  let ?h' = "appendTurn h u a"
  have h': "?h' = drop ?k (h @ ?e)" by (rule appendTurn_drop)
  have len: "length ?h' = length h + 2 - ?k" by (simp add: h')
  have "appendTurns h (t # turns) = appendTurns ?h' turns"
    by (simp add: appendTurns_def t)
  also have "\<dots> = drop (length ?h' + 2 * length turns - 20) (?h' @ turn_entries turns)"
    using Cons.IH [of ?h'] appendTurn_length [of h u a] by simp
  also have "?h' @ turn_entries turns = drop ?k ((h @ ?e) @ turn_entries turns)"
    using Cons.prems by (simp add: h')
  also have "drop (length ?h' + 2 * length turns - 20) (drop ?k ((h @ ?e) @ turn_entries turns))
      = drop (length ?h' + 2 * length turns - 20 + ?k) ((h @ ?e) @ turn_entries turns)"
    by (simp only: drop_drop)
  also have "length ?h' + 2 * length turns - 20 + ?k = length h + 2 * length (t # turns) - 20"
    using Cons.prems len by simp
  also have "(h @ ?e) @ turn_entries turns = h @ turn_entries (t # turns)"
    by (simp add: turn_entries_def t)
  finally show ?case .
qed

lemma handleIncomingMessage_turn:
  assumes r: "resolveContent C twilioBody = Inr messageText"
    and t: "trim messageText \<noteq> []"
    and a: "final (agent_invoke C (SystemMessage # history_messages (getHistory w sender)
                @ [HumanMessage messageText])) = Inr c"
  shows "\<exists>res w'. handleIncomingMessage C R sender twilioBody w = Some (res, w')
           \<and> getHistory w' sender
             = appendTurn (getHistory w sender) messageText
                 (if c = [] then ascii ''I've completed the task!'' else c)"
proof -
  let ?resp = "if c = [] then ascii ''I've completed the task!'' else c"
  obtain w1 where w1: "runAgent C R messageText (getHistory w sender) w = (Inr ?resp, w1)"
    and h1: "conversationHistory w1 = conversationHistory w"
    using a by (simp add: runAgent_def Let_def)
  let ?w2 = "w1\<lparr>conversationHistory :=
      Map_set sender (appendTurn (getHistory w sender) messageText ?resp) (conversationHistory w1)\<rparr>"
  have g2: "getHistory ?w2 sender = appendTurn (getHistory w sender) messageText ?resp"
    by (simp add: getHistory_def Map_get_Map_set)
  obtain res3 w3 where s3: "sendWhatsAppMessage C sender ?resp ?w2 = Some (res3, w3)"
    using sendWhatsAppMessage_total by blast
  then have k3: "conversationHistory w3 = conversationHistory ?w2"
    using sendWhatsAppMessage_keeps by blast
  have tr: "handleIncomingMessage_try C R sender twilioBody w = Some (res3, w3)"
    using r t w1 s3 by (simp add: handleIncomingMessage_try_def Let_def)
  show ?thesis
  proof (cases res3)
    case (Inr u)
    with tr have "handleIncomingMessage C R sender twilioBody w = Some (res3, w3)"
      by (simp add: handleIncomingMessage_def)
    with k3 g2 show ?thesis by (simp add: getHistory_def)
  next
    case (Inl e)
    obtain res4 w4 where s4: "sendWhatsAppMessage C sender OOPS w3 = Some (res4, w4)"
      using sendWhatsAppMessage_total by blast
    then have k4: "conversationHistory w4 = conversationHistory w3"
      using sendWhatsAppMessage_keeps by blast
    from Inl tr s4 have "handleIncomingMessage C R sender twilioBody w = Some (res4, w4)"
      by (simp add: handleIncomingMessage_def)
    with k4 k3 g2 show ?thesis by (simp add: getHistory_def)
  qed
qed

text \<open>
  C5. For every sender, a completed turn (the text of the event is not blank and the
  agent returns a response) leaves as the sender's history the old history with the user
  entry and then the assistant entry appended, cut from the front to its last 20 entries;
  so a history never exceeds 20 entries. Eleven turns applied to an empty history leave
  exactly 20 entries: the 22 written, in order, without the first two.
\<close>

theorem history_append_trim:
  "(resolveContent C twilioBody = Inr messageText \<and> trim messageText \<noteq> []
      \<and> final (agent_invoke C (SystemMessage # history_messages (getHistory w sender)
                  @ [HumanMessage messageText])) = Inr c
    \<longrightarrow> (\<exists>res w'. handleIncomingMessage C R sender twilioBody w = Some (res, w')
           \<and> getHistory w' sender
             = appendTurn (getHistory w sender) messageText
                 (if c = [] then ascii ''I've completed the task!'' else c)))
   \<and> appendTurn h u a
       = drop (length h + 2 - 20) (h @ [\<lparr>role = User, content = u\<rparr>, \<lparr>role = Assistant, content = a\<rparr>])
   \<and> length (appendTurn h u a) \<le> 20
   \<and> (length turns = 11 \<longrightarrow>
        appendTurns [] turns = drop 2 (turn_entries turns) \<and> length (appendTurns [] turns) = 20)"
proof -
  have eleven: "length turns = 11 \<longrightarrow>
        appendTurns [] turns = drop 2 (turn_entries turns) \<and> length (appendTurns [] turns) = 20"
  proof
    assume l: "length turns = 11"
    have len: "length (turn_entries turns) = 2 * length turns"
      by (induction turns) (auto simp: turn_entries_def)
    from l appendTurns_drop [of "[]" turns] have "appendTurns [] turns = drop 2 (turn_entries turns)"
      by simp
    with l len show "appendTurns [] turns = drop 2 (turn_entries turns)
        \<and> length (appendTurns [] turns) = 20" by simp
  qed
  show ?thesis
    using handleIncomingMessage_turn [of C twilioBody messageText w sender c R]
      appendTurn_drop [of h u a] appendTurn_length [of h u a] eleven
    by blast
qed

theorem history_append_trim_witness:
  "(\<exists>res w'. handleIncomingMessage example_collaborators example_runtime example_sender text_event
        example_world = Some (res, w')
      \<and> getHistory w' example_sender
          = [\<lparr>role = User, content = ascii ''hello''\<rparr>, \<lparr>role = Assistant, content = ascii ''ok''\<rparr>])
   \<and> appendTurns [] example_turns = turn_entries (tl example_turns)
   \<and> length (appendTurns [] example_turns) = 20
   \<and> length example_turns = 11"
proof -
  have r: "resolveContent example_collaborators text_event = Inr (ascii ''hello'')"
    by (simp add: resolveContent_def example_collaborators_def text_event_def)
  have t: "trim (ascii ''hello'') \<noteq> []"
    by (simp add: trim_def ascii_def is_ws_def)
  have a: "final (agent_invoke example_collaborators
        (SystemMessage # history_messages (getHistory example_world example_sender)
           @ [HumanMessage (ascii ''hello'')])) = Inr (ascii ''ok'')"
    by (simp add: example_collaborators_def)
  have g: "getHistory example_world example_sender = []"
    by (simp add: getHistory_def example_world_def Map_get_def)
  have ok: "ascii ''ok'' \<noteq> []" by (simp add: ascii_def)
  have l: "length example_turns = 11" by (simp add: example_turns_def)
  have d: "drop 2 (turn_entries example_turns) = turn_entries (tl example_turns)"
    by (simp add: example_turns_def turn_entries_def upt_conv_Cons)
  note c = history_append_trim
    [of example_collaborators text_event "ascii ''hello''" example_world example_sender
      "ascii ''ok''" example_runtime "[]" "[]" "[]" example_turns]
  from c r t a have "\<exists>res w'. handleIncomingMessage example_collaborators example_runtime
        example_sender text_event example_world = Some (res, w')
      \<and> getHistory w' example_sender
          = appendTurn (getHistory example_world example_sender) (ascii ''hello'')
              (if ascii ''ok'' = [] then ascii ''I've completed the task!'' else ascii ''ok'')"
    by blast
  then have first: "\<exists>res w'. handleIncomingMessage example_collaborators example_runtime
        example_sender text_event example_world = Some (res, w')
      \<and> getHistory w' example_sender
          = [\<lparr>role = User, content = ascii ''hello''\<rparr>, \<lparr>role = Assistant, content = ascii ''ok''\<rparr>]"
    by (simp add: g ok appendTurn_def)
  from c l have "appendTurns [] example_turns = drop 2 (turn_entries example_turns)"
      and third: "length (appendTurns [] example_turns) = 20" by blast+
  with d have second: "appendTurns [] example_turns = turn_entries (tl example_turns)" by simp
  from first second third l show ?thesis by blast
qed

section \<open>Properties of the trigger endpoints\<close>

lemma processLoop_total: "\<exists>w'. processLoop C cfg pending w = Some w'"
proof (induction pending arbitrary: w)
  case Nil
  show ?case by simp
next
  case (Cons r pending)
  obtain res w1 where s: "sendWhatsAppMessage C (YOUR_WHATSAPP_NUMBER cfg) (reminder_text r) w
      = Some (res, w1)"
    using sendWhatsAppMessage_total by blast
  show ?case
  proof (cases res)
    case (Inl e)
    with s Cons.IH [of w1] show ?thesis by simp
  next
    case (Inr u)
    with s Cons.IH [of "w1\<lparr>reminders := markReminderSent (r_id r) (reminders w1)\<rparr>"]
    show ?thesis by simp
  qed
qed

lemma handleReminders_ok:
  "\<exists>n w'. handleReminders C cfg now w = Some (\<lparr>status = 200, body = ProcessedJson n\<rparr>, w')"
proof -
  obtain w' where "processLoop C cfg (getPendingReminders now (reminders w)) w = Some w'"
    using processLoop_total by blast
  then show ?thesis
    by (simp add: handleReminders_def processPendingReminders_def Let_def)
qed

lemma handleDailySummary_not_401:
  "\<exists>res w'. handleDailySummary C cfg w = Some (res, w') \<and> status res \<noteq> 401"
proof (cases "todays_digest C")
  case (Inl e)
  then show ?thesis by (simp add: handleDailySummary_def sendDailyReminders_def)
next
  case (Inr msg)
  obtain res w1 where s: "sendWhatsAppMessage C (YOUR_WHATSAPP_NUMBER cfg) msg w = Some (res, w1)"
    using sendWhatsAppMessage_total by blast
  with Inr show ?thesis
    by (cases res) (simp_all add: handleDailySummary_def sendDailyReminders_def)
qed

lemma validateCronSecret_cases:
  "validateCronSecret cfg req =
     (if strict_equal (supplied_secret req) (of_optional (CRON_SECRET cfg)) then Next
      else Responded \<lparr>status = 401, body = ErrorJson (ascii ''Unauthorized'')\<rparr>)"
  by (simp add: validateCronSecret_def)

text \<open>
  C8. For every request to a trigger endpoint whose supplied secret (the header
  \<open>x-cron-secret\<close>, or else the query parameter \<open>secret\<close>) is not strictly equal to the
  configured secret, the response is 401 with the body \<open>{error: 'Unauthorized'}\<close> and the
  state is as before: the handler does not run, so neither the reminder store nor the
  session store changes and nothing is sent.
\<close>

theorem wrong_secret_unauthorized:
  assumes "\<not> strict_equal (supplied_secret req) (of_optional (CRON_SECRET cfg))"
  shows "cron_daily_summary C cfg req w
           = Some (\<lparr>status = 401, body = ErrorJson (ascii ''Unauthorized'')\<rparr>, w)
       \<and> cron_reminders C cfg now req w
           = Some (\<lparr>status = 401, body = ErrorJson (ascii ''Unauthorized'')\<rparr>, w)"
  using assms by (simp add: cron_daily_summary_def cron_reminders_def validateCronSecret_def)

theorem wrong_secret_unauthorized_witness:
  "cron_reminders example_collaborators example_config 1700000001000
      \<lparr>header_x_cron_secret = Some (ascii ''guess''), query_secret = Undefined\<rparr> due_world
     = Some (\<lparr>status = 401, body = ErrorJson (ascii ''Unauthorized'')\<rparr>, due_world)
   \<and> cron_daily_summary example_collaborators example_config
      \<lparr>header_x_cron_secret = None, query_secret = String (ascii ''guess'')\<rparr> due_world
     = Some (\<lparr>status = 401, body = ErrorJson (ascii ''Unauthorized'')\<rparr>, due_world)"
proof -
  have "\<not> strict_equal
      (supplied_secret \<lparr>header_x_cron_secret = Some (ascii ''guess''), query_secret = Undefined\<rparr>)
      (of_optional (CRON_SECRET example_config))"
    by (simp add: supplied_secret_def or_else_def of_optional_def example_config_def ascii_def)
  moreover have "\<not> strict_equal
      (supplied_secret \<lparr>header_x_cron_secret = None, query_secret = String (ascii ''guess'')\<rparr>)
      (of_optional (CRON_SECRET example_config))"
    by (simp add: supplied_secret_def or_else_def of_optional_def example_config_def ascii_def)
  ultimately show ?thesis
    using wrong_secret_unauthorized
        [of "\<lparr>header_x_cron_secret = Some (ascii ''guess''), query_secret = Undefined\<rparr>"
          example_config example_collaborators due_world 1700000001000]
      wrong_secret_unauthorized
        [of "\<lparr>header_x_cron_secret = None, query_secret = String (ascii ''guess'')\<rparr>"
          example_config example_collaborators due_world 1700000001000]
    by simp
qed

text \<open>
  C10. The guard answers 401 exactly when the supplied secret is not strictly equal to
  the configured one, and calls \<open>next()\<close> exactly when it is; so each trigger route answers
  401 exactly in that case. In particular, when \<open>CRON_SECRET\<close> is not set and the request
  carries neither the header nor the query parameter, both are \<open>undefined\<close>, the guard
  passes and the route does what its handler does.
\<close>

theorem guard_iff_differs:
  "(validateCronSecret cfg req = Responded \<lparr>status = 401, body = ErrorJson (ascii ''Unauthorized'')\<rparr>
      \<longleftrightarrow> \<not> strict_equal (supplied_secret req) (of_optional (CRON_SECRET cfg)))
   \<and> (validateCronSecret cfg req = Next
      \<longleftrightarrow> strict_equal (supplied_secret req) (of_optional (CRON_SECRET cfg)))
   \<and> ((\<exists>res w'. cron_reminders C cfg now req w = Some (res, w') \<and> status res = 401)
      \<longleftrightarrow> \<not> strict_equal (supplied_secret req) (of_optional (CRON_SECRET cfg)))
   \<and> ((\<exists>res w'. cron_daily_summary C cfg req w = Some (res, w') \<and> status res = 401)
      \<longleftrightarrow> \<not> strict_equal (supplied_secret req) (of_optional (CRON_SECRET cfg)))
   \<and> (CRON_SECRET cfg = None \<and> header_x_cron_secret req = None \<and> query_secret req = Undefined
      \<longrightarrow> cron_reminders C cfg now req w = handleReminders C cfg now w
          \<and> cron_daily_summary C cfg req w = handleDailySummary C cfg w)"
proof -
  have g1: "validateCronSecret cfg req = Responded \<lparr>status = 401, body = ErrorJson (ascii ''Unauthorized'')\<rparr>
      \<longleftrightarrow> \<not> strict_equal (supplied_secret req) (of_optional (CRON_SECRET cfg))"
    by (simp add: validateCronSecret_cases)
  have g2: "validateCronSecret cfg req = Next
      \<longleftrightarrow> strict_equal (supplied_secret req) (of_optional (CRON_SECRET cfg))"
    by (simp add: validateCronSecret_cases)
  have r1: "(\<exists>res w'. cron_reminders C cfg now req w = Some (res, w') \<and> status res = 401)
      \<longleftrightarrow> \<not> strict_equal (supplied_secret req) (of_optional (CRON_SECRET cfg))"
    using handleReminders_ok [of C cfg now w]
    by (auto simp: cron_reminders_def validateCronSecret_cases)
  have r2: "(\<exists>res w'. cron_daily_summary C cfg req w = Some (res, w') \<and> status res = 401)
      \<longleftrightarrow> \<not> strict_equal (supplied_secret req) (of_optional (CRON_SECRET cfg))"
    using handleDailySummary_not_401 [of C cfg w]
    by (auto simp: cron_daily_summary_def validateCronSecret_cases)
  have r3: "CRON_SECRET cfg = None \<and> header_x_cron_secret req = None \<and> query_secret req = Undefined
      \<longrightarrow> cron_reminders C cfg now req w = handleReminders C cfg now w
          \<and> cron_daily_summary C cfg req w = handleDailySummary C cfg w"
    by (simp add: cron_reminders_def cron_daily_summary_def validateCronSecret_cases
          supplied_secret_def or_else_def of_optional_def)
  from g1 g2 r1 r2 r3 show ?thesis by blast
qed

theorem guard_iff_differs_witness:
  "cron_reminders example_collaborators (example_config\<lparr>CRON_SECRET := None\<rparr>) 1700000001000
      \<lparr>header_x_cron_secret = None, query_secret = Undefined\<rparr> due_world
   = Some (\<lparr>status = 200, body = ProcessedJson 1\<rparr>,
       due_world\<lparr>reminders := [(example_id, \<lparr>r_id = example_id, r_message = ascii ''call mom'',
            triggerAt = Some 1700000000000, createdAt = Some 1699990000000, sent = True\<rparr>)],
          twilio_calls := 1,
          delivered := [(Some (ascii ''whatsapp:+15550002222''),
             [0x23F0] @ ascii '' *Reminder:*'' @ [0x0A, 0x0A] @ ascii ''call mom'')]\<rparr>)
   \<and> validateCronSecret example_config \<lparr>header_x_cron_secret = None, query_secret = Undefined\<rparr>
       = Responded \<lparr>status = 401, body = ErrorJson (ascii ''Unauthorized'')\<rparr>"
proof -
  let ?cfg = "example_config\<lparr>CRON_SECRET := None\<rparr>"
  let ?req = "\<lparr>header_x_cron_secret = None, query_secret = Undefined\<rparr>"
  have len: "length (reminder_text \<lparr>r_id = example_id, r_message = ascii ''call mom'',
            triggerAt = Some 1700000000000, createdAt = Some 1699990000000, sent = False\<rparr>) \<le> 1500"
    by (simp add: reminder_text_def ascii_def)
  have h: "handleReminders example_collaborators ?cfg 1700000001000 due_world
     = Some (\<lparr>status = 200, body = ProcessedJson 1\<rparr>,
       due_world\<lparr>reminders := [(example_id, \<lparr>r_id = example_id, r_message = ascii ''call mom'',
            triggerAt = Some 1700000000000, createdAt = Some 1699990000000, sent = True\<rparr>)],
          twilio_calls := 1,
          delivered := [(Some (ascii ''whatsapp:+15550002222''),
             [0x23F0] @ ascii '' *Reminder:*'' @ [0x0A, 0x0A] @ ascii ''call mom'')]\<rparr>)"
    using len
    by (simp add: handleReminders_def processPendingReminders_def getPendingReminders_def
          date_le_def due_world_def example_world_def sendWhatsAppMessage_short
          example_collaborators_def example_config_def)
       (simp add: reminder_text_def)
  have d: "\<not> strict_equal (supplied_secret ?req) (of_optional (CRON_SECRET example_config))"
    by (simp add: supplied_secret_def or_else_def of_optional_def example_config_def)
  from guard_iff_differs [of ?cfg ?req example_collaborators 1700000001000 due_world]
  have "cron_reminders example_collaborators ?cfg 1700000001000 ?req due_world
      = handleReminders example_collaborators ?cfg 1700000001000 due_world"
    by simp
  moreover from guard_iff_differs [of example_config ?req example_collaborators 1700000001000 due_world] d
  have "validateCronSecret example_config ?req
       = Responded \<lparr>status = 401, body = ErrorJson (ascii ''Unauthorized'')\<rparr>"
    by blast
  ultimately show ?thesis using h by simp
qed

end
